theory Spec2Isabelle
  imports Complex_Main "HOL-Library.Multiset" "HOL-Library.Sublist"
begin

section \<open>JavaScript values used by server.js\<close>

text \<open>
  A JavaScript number is \<open>NaN\<close>, \<open>Infinity\<close>, \<open>-Infinity\<close> or a finite number.
  A finite double is identified with the real number it stands for; \<open>0\<close> and \<open>-0\<close>
  are one value (both are falsy and both print as \<open>0\<close>). A real is taken into the
  doubles by \<open>to_double\<close>, which knows the two ends of the range: a magnitude of
  \<open>2^1024 - 2^970\<close> or more rounds to an infinity, a magnitude of \<open>2^-1075\<close> or less
  rounds to zero. Between the two ends the rounding to 53 bits is not carried out:
  arithmetic there is exact.
  A request parameter (\<open>req.query.lat\<close>, \<open>req.body.lat\<close>) is a string or
  \<open>undefined\<close>: \<open>string option\<close>, the string given by its UTF-8 bytes. A parameter
  that is sent several times or with brackets, and so arrives as an array or an object,
  is not covered.
\<close>

datatype jsnum = NaN | Num real | Infinity | NegInfinity

definition overflow_bound :: real where
  "overflow_bound = 2 ^ 1024 - 2 ^ 970"

definition underflow_bound :: real where
  "underflow_bound = 1 / 2 ^ 1075"

definition to_double :: "real \<Rightarrow> jsnum" where
  "to_double v =
     (if overflow_bound \<le> v then Infinity
      else if v \<le> - overflow_bound then NegInfinity
      else if \<bar>v\<bar> \<le> underflow_bound then Num 0
      else Num v)"

text \<open>\<open>!s\<close> for a parameter: true for \<open>undefined\<close> and for the empty string.\<close>

fun not_str :: "string option \<Rightarrow> bool" where
  "not_str None = True"
| "not_str (Some s) = (s = [])"

text \<open>\<open>x || d\<close> for a number \<open>x\<close>: \<open>NaN\<close> and \<open>0\<close> are falsy, the infinities are not.\<close>

fun js_or :: "jsnum \<Rightarrow> jsnum \<Rightarrow> jsnum" where
  "js_or NaN d = d"
| "js_or (Num x) d = (if x = 0 then d else Num x)"
| "js_or Infinity d = Infinity"
| "js_or NegInfinity d = NegInfinity"

text \<open>\<open>x / d\<close> for a number \<open>x\<close> and a positive finite \<open>d\<close>.\<close>

fun js_div :: "jsnum \<Rightarrow> real \<Rightarrow> jsnum" where
  "js_div NaN d = NaN"
| "js_div (Num x) d = to_double (x / d)"
| "js_div Infinity d = Infinity"
| "js_div NegInfinity d = NegInfinity"

subsection \<open>parseFloat\<close>

text \<open>
  The built-in \<open>parseFloat\<close>: leading white space is skipped, then the longest prefix
  that is a decimal literal (sign, then \<open>Infinity\<close> or digits, fraction and exponent) is
  read and rounded into the doubles; the rest of the string is ignored; with no such
  prefix the result is \<open>NaN\<close>.
\<close>

text \<open>
  White space and line terminators of one byte (TAB, LF, VT, FF, CR, space), of two bytes
  (U+00A0) and of three bytes (U+1680, U+2000 to U+200A, U+2028, U+2029, U+202F, U+205F,
  U+3000, U+FEFF) in UTF-8.
\<close>

definition is_ws1 :: "char \<Rightarrow> bool" where
  "is_ws1 a = (a \<in> set [CHR 0x09, CHR 0x0A, CHR 0x0B, CHR 0x0C, CHR 0x0D, CHR 0x20])"

definition is_ws2 :: "char \<Rightarrow> char \<Rightarrow> bool" where
  "is_ws2 a b = (a = CHR 0xC2 \<and> b = CHR 0xA0)"

definition is_ws3 :: "char \<Rightarrow> char \<Rightarrow> char \<Rightarrow> bool" where
  "is_ws3 a b c =
     ((a = CHR 0xE1 \<and> b = CHR 0x9A \<and> c = CHR 0x80) \<or>
      (a = CHR 0xE2 \<and> b = CHR 0x80 \<and>
         c \<in> set [CHR 0x80, CHR 0x81, CHR 0x82, CHR 0x83, CHR 0x84, CHR 0x85, CHR 0x86,
                  CHR 0x87, CHR 0x88, CHR 0x89, CHR 0x8A, CHR 0xA8, CHR 0xA9, CHR 0xAF]) \<or>
      (a = CHR 0xE2 \<and> b = CHR 0x81 \<and> c = CHR 0x9F) \<or>
      (a = CHR 0xE3 \<and> b = CHR 0x80 \<and> c = CHR 0x80) \<or>
      (a = CHR 0xEF \<and> b = CHR 0xBB \<and> c = CHR 0xBF))"

fun skip_ws :: "string \<Rightarrow> string" where
  "skip_ws (a # b # c # cs) =
     (if is_ws1 a then skip_ws (b # c # cs)
      else if is_ws2 a b then skip_ws (c # cs)
      else if is_ws3 a b c then skip_ws cs
      else a # b # c # cs)"
| "skip_ws [a, b] =
     (if is_ws1 a then skip_ws [b]
      else if is_ws2 a b then []
      else [a, b])"
| "skip_ws [a] = (if is_ws1 a then [] else [a])"
| "skip_ws [] = []"

definition is_digit :: "char \<Rightarrow> bool" where
  "is_digit c = (c \<in> set ''0123456789'')"

definition digit_val :: "char \<Rightarrow> nat" where
  "digit_val c = of_char c - 48"

definition digits_val :: "string \<Rightarrow> nat" where
  "digits_val ds = foldl (\<lambda>n c. 10 * n + digit_val c) 0 ds"

text \<open>The sign in front of the mantissa or of the exponent: (negative, rest).\<close>

fun read_sign :: "string \<Rightarrow> bool \<times> string" where
  "read_sign [] = (False, [])"
| "read_sign (c # cs) =
     (if c = CHR ''-'' then (True, cs)
      else if c = CHR ''+'' then (False, cs)
      else (False, c # cs))"

text \<open>The exponent part, read only when at least one digit follows \<open>e\<close> and the sign.\<close>

fun read_exponent :: "string \<Rightarrow> int" where
  "read_exponent [] = 0"
| "read_exponent (c # cs) =
     (if c = CHR ''e'' \<or> c = CHR ''E'' then
        (let (neg, r) = read_sign cs; ds = takeWhile is_digit r
         in if ds = [] then 0
            else if neg then - int (digits_val ds) else int (digits_val ds))
      else 0)"

definition scale10 :: "real \<Rightarrow> int \<Rightarrow> real" where
  "scale10 m e = (if 0 \<le> e then m * 10 ^ nat e else m / 10 ^ nat (- e))"

definition parseFloat :: "string \<Rightarrow> jsnum" where
  "parseFloat s =
     (let (neg, s2) = read_sign (skip_ws s);
          ip = takeWhile is_digit s2;
          s3 = dropWhile is_digit s2;
          fp = (case s3 of [] \<Rightarrow> [] | c # r \<Rightarrow> if c = CHR ''.'' then takeWhile is_digit r else []);
          s4 = (case s3 of [] \<Rightarrow> [] | c # r \<Rightarrow> if c = CHR ''.'' then dropWhile is_digit r else s3)
      in if prefix ''Infinity'' s2 then (if neg then NegInfinity else Infinity)
         else if ip = [] \<and> fp = [] then NaN
         else
           (let m = real (digits_val ip) + real (digits_val fp) / 10 ^ length fp;
                v = scale10 m (read_exponent s4)
            in to_double (if neg then - v else v)))"

section \<open>Persistent state\<close>

text \<open>
  A row of the table \<open>Sounds\<close> (the model \<open>Sound\<close>). The model declares no
  validator, and Sequelize writes a \<open>FLOAT\<close> that is \<open>NaN\<close> or infinite as the text
  \<open>'NaN'\<close>, \<open>'Infinity'\<close>, \<open>'-Infinity'\<close>: the columns \<open>lat\<close> and \<open>lng\<close> hold any
  JavaScript number. The primary key is \<open>sound_id\<close>; the time stamps Sequelize adds
  are left out.
\<close>

record sound =
  sound_id :: nat
  filename :: string
  url :: string
  lat :: jsnum
  lng :: jsnum
  mimetype :: string
  size_bytes :: nat

text \<open>
  The state the server works on: the rows of \<open>Sounds\<close> in insertion (rowid) order, the
  names of the files in \<open>uploadDir\<close>, and the number of bytes the storage engine has
  written into \<open>uploadDir\<close> so far (a count that is never read by the program).
\<close>

record world =
  sounds :: "sound list"
  uploads :: "string set"
  written :: nat

datatype body =
    Error string
  | Created sound
  | Rows "(sound \<times> real) list"

text \<open>
  What a request ends in: a response sent with a status and a JSON body, or
  \<open>Unhandled\<close>: the promise of the async route handler rejected before any
  \<open>res.status(...).json(...)\<close> was reached. What the client sees then depends on
  the framework: Express 4 sends nothing, Express 5 hands the error to the error handling
  middleware.
\<close>

datatype outcome = Response nat body | Unhandled

datatype failure = ValidationError | StorageError | IOError

section \<open>GET /api/recordings\<close>

record search_req =
  q_lat :: "string option"
  q_lng :: "string option"
  q_radius :: "string option"

definition radians :: "real \<Rightarrow> real" where
  "radians d = d * pi / 180"

text \<open>
  The column \<open>distance\<close> of the inner \<open>SELECT\<close>, in exact arithmetic. It is \<open>NULL\<close>
  (\<open>None\<close>) for a row whose \<open>lat\<close> or \<open>lng\<close> is not a finite number: SQLite's
  \<open>radians\<close> gives \<open>NULL\<close> for a text that is no number.
\<close>

definition distance :: "real \<Rightarrow> real \<Rightarrow> sound \<Rightarrow> real option" where
  "distance latitude longitude s =
     (case (lat s, lng s) of
        (Num row_lat, Num row_lng) \<Rightarrow>
          Some (6371 * arccos
            (cos (radians latitude) * cos (radians row_lat)
               * cos (radians row_lng - radians longitude)
             + sin (radians latitude) * sin (radians row_lat)))
      | _ \<Rightarrow> None)"

text \<open>
  One row of the inner \<open>SELECT\<close> under \<open>WHERE distance < :radius\<close>: the row with its
  distance when the comparison is true; a \<open>NULL\<close> distance is not less than anything.
\<close>

definition where_distance :: "real \<Rightarrow> real \<Rightarrow> real \<Rightarrow> sound \<Rightarrow> (sound \<times> real) option" where
  "where_distance latitude longitude radius s =
     (case distance latitude longitude s of
        None \<Rightarrow> None
      | Some d \<Rightarrow> if d < radius then Some (s, d) else None)"

text \<open>
  The whole statement: every row with its distance, \<open>WHERE distance < :radius\<close>,
  \<open>ORDER BY distance\<close>, \<open>LIMIT 100\<close>. The table is scanned in rowid order and the
  sort keeps rows of equal distance in scan order, as SQLite's sorter for
  \<open>ORDER BY ... LIMIT\<close> does (the statement itself names no second key).
\<close>

definition nearby :: "sound list \<Rightarrow> real \<Rightarrow> real \<Rightarrow> real \<Rightarrow> (sound \<times> real) list" where
  "nearby rows latitude longitude radius =
     take 100
       (sort_key snd
          (List.map_filter (where_distance latitude longitude radius) rows))"

text \<open>
  \<open>sequelize.query\<close> with the three replacements. Sequelize writes a number into the
  statement by \<open>toString\<close>; \<open>NaN\<close>, \<open>Infinity\<close> and \<open>-Infinity\<close> are no SQL literals,
  so with one of them the statement is refused and the promise rejects, as it does when
  the database cannot be read (\<open>query_ok\<close> false).
\<close>

definition sequelize_query ::
  "bool \<Rightarrow> sound list \<Rightarrow> jsnum \<Rightarrow> jsnum \<Rightarrow> jsnum \<Rightarrow> failure + (sound \<times> real) list" where
  "sequelize_query query_ok rows latitude longitude radius =
     (case (latitude, longitude, radius) of
        (Num a, Num b, Num r) \<Rightarrow>
          if query_ok then Inr (nearby rows a b r) else Inl StorageError
      | _ \<Rightarrow> Inl StorageError)"

text \<open>\<open>parseFloat(v)\<close> for a parameter: \<open>undefined\<close> reads as \<open>NaN\<close>.\<close>

fun parseFloat_param :: "string option \<Rightarrow> jsnum" where
  "parseFloat_param None = NaN"
| "parseFloat_param (Some s) = parseFloat s"

definition latitude_of :: "search_req \<Rightarrow> jsnum" where
  "latitude_of q = js_or (parseFloat_param (q_lat q)) (Num 0)"

definition longitude_of :: "search_req \<Rightarrow> jsnum" where
  "longitude_of q = js_or (parseFloat_param (q_lng q)) (Num 0)"

text \<open>
  \<open>const { radius=0.25 } = req.query\<close>: the default \<open>0.25\<close> stands in for an absent
  parameter only, and \<open>parseFloat(0.25)\<close> is \<open>0.25\<close>. Then \<open>|| 0.5\<close>.
\<close>

definition searchRadius :: "string option \<Rightarrow> jsnum" where
  "searchRadius radius =
     js_or (case radius of None \<Rightarrow> Num 0.25 | Some r \<Rightarrow> parseFloat r) (Num 0.5)"

text \<open>
  The handler. When \<open>sequelize.query\<close> rejects, the \<open>catch\<close> block answers 500.
\<close>

definition get_recordings :: "bool \<Rightarrow> world \<Rightarrow> search_req \<Rightarrow> outcome" where
  "get_recordings query_ok w q =
     (if not_str (q_lat q) \<or> not_str (q_lng q) then
        Response 400 (Error ''Missing coordinates'')
      else
        (case sequelize_query query_ok (sounds w) (latitude_of q) (longitude_of q)
                (js_div (searchRadius (q_radius q)) 1000) of
           Inr recordings \<Rightarrow> Response 200 (Rows recordings)
         | Inl _ \<Rightarrow> Response 500 (Error ''Failed to fetch recordings'')))"

text \<open>
  The distance of the specification: the haversine formula, with \<open>R = 6371\<close> and the
  angles in radians, between a center and a point given in degrees.
\<close>

definition haversine_spec :: "real \<Rightarrow> real \<Rightarrow> real \<Rightarrow> real \<Rightarrow> real" where
  "haversine_spec latitude longitude row_lat row_lng =
     2 * 6371 * arcsin (sqrt
       ((sin ((radians row_lat - radians latitude) / 2))\<^sup>2
        + cos (radians latitude) * cos (radians row_lat)
            * (sin ((radians row_lng - radians longitude) / 2))\<^sup>2))"

section \<open>POST /api/recordings\<close>

text \<open>
  What the request does not determine: the name multer's \<open>filename\<close> callback builds
  (\<open>Date.now() + '-' + Math.round(Math.random() * 1e9)\<close>, then
  \<open>path.extname(file.originalname)\<close>), whether \<open>Sound.create\<close> reaches the
  database, and whether each of the two \<open>fs.unlink\<close> calls succeeds.
\<close>

record env =
  uniqueSuffix :: string
  extension :: string
  db_write_ok :: bool
  unlink_ok_400 :: bool
  unlink_ok_catch :: bool

text \<open>The file part \<open>audio\<close> of the multipart form, and \<open>req.file\<close> once stored.\<close>

record file_part =
  part_mimetype :: string
  part_size :: nat

record req_file =
  file_filename :: string
  file_path :: string
  file_mimetype :: string
  file_size :: nat

record upload_req =
  audio :: "file_part option"
  body_lat :: "string option"
  body_lng :: "string option"

definition allowedTypes :: "string list" where
  "allowedTypes = [''audio/mpeg'', ''audio/wav'', ''audio/webm'']"

text \<open>\<open>True\<close> for \<open>cb(null, true)\<close>, \<open>False\<close> for \<open>cb(new Error(...), false)\<close>.\<close>

definition fileFilter :: "file_part \<Rightarrow> bool" where
  "fileFilter file = (part_mimetype file \<in> set allowedTypes)"

definition fileSize :: nat where
  "fileSize = 10 * 1024 * 1024"

datatype multer_result = MulterError string | NoFile | Stored req_file

text \<open>
  The storage engine (\<open>diskStorage\<close>) streams a file into \<open>uploadDir\<close> under the
  generated name; of a file longer than \<open>limits.fileSize\<close> it receives the first
  \<open>fileSize\<close> bytes. A path is the name inside \<open>uploadDir\<close>.
\<close>

definition disk_write :: "string \<Rightarrow> nat \<Rightarrow> world \<Rightarrow> world" where
  "disk_write name n w =
     w\<lparr>uploads := insert name (uploads w), written := written w + min n fileSize\<rparr>"

text \<open>What multer does with the files it has stored when the upload ends in an error.\<close>

definition remove_uploaded :: "string \<Rightarrow> world \<Rightarrow> world" where
  "remove_uploaded name w = w\<lparr>uploads := uploads w - {name}\<rparr>"

text \<open>
  \<open>upload.single('audio')\<close>: the filter is asked first, and a refused file never
  reaches the storage engine; an accepted file is streamed to disk; when it turns out
  longer than \<open>limits.fileSize\<close> the upload ends in an error and multer removes the
  file again; otherwise \<open>req.file\<close> describes the stored file.
\<close>

definition upload_single :: "env \<Rightarrow> world \<Rightarrow> file_part option \<Rightarrow> multer_result \<times> world" where
  "upload_single e w part =
     (case part of
        None \<Rightarrow> (NoFile, w)
      | Some file \<Rightarrow>
          if \<not> fileFilter file then
            (MulterError ''Invalid file type. Only audio files are allowed.'', w)
          else
            (let name = uniqueSuffix e @ extension e;
                 w1 = disk_write name (part_size file) w
             in if fileSize < part_size file then
                  (MulterError ''File too large'', remove_uploaded name w1)
                else
                  (Stored \<lparr>file_filename = name, file_path = name,
                           file_mimetype = part_mimetype file, file_size = part_size file\<rparr>,
                   w1)))"

text \<open>\<open>fs.unlink\<close>: fails when the environment says so or when the file is not there.\<close>

definition fs_unlink :: "bool \<Rightarrow> string \<Rightarrow> world \<Rightarrow> failure + world" where
  "fs_unlink ok path w =
     (if ok \<and> path \<in> uploads w then Inr (w\<lparr>uploads := uploads w - {path}\<rparr>)
      else Inl IOError)"

text \<open>
  \<open>Sound.create\<close>: the row is appended with the next primary key, whatever the two
  numbers are; a database that cannot be written refuses the insert.
\<close>

definition Sound_create ::
  "env \<Rightarrow> world \<Rightarrow> string \<Rightarrow> string \<Rightarrow> jsnum \<Rightarrow> jsnum \<Rightarrow> string \<Rightarrow> nat
     \<Rightarrow> failure + (sound \<times> world)" where
  "Sound_create e w fname furl lat_v lng_v mt sz =
     (if db_write_ok e then
        (let recording = \<lparr>sound_id = Suc (length (sounds w)), filename = fname,
                           url = furl, lat = lat_v, lng = lng_v, mimetype = mt,
                           size_bytes = sz\<rparr>
         in Inr (recording, w\<lparr>sounds := sounds w @ [recording]\<rparr>))
      else Inl StorageError)"

text \<open>
  The \<open>catch\<close> block of the handler: the unlink is awaited before the response is
  built, so when it throws, the handler ends without a response.
\<close>

definition catch_block :: "env \<Rightarrow> world \<Rightarrow> req_file option \<Rightarrow> outcome \<times> world" where
  "catch_block e w file =
     (case file of
        None \<Rightarrow> (Response 500 (Error ''Failed to save recording''), w)
      | Some f \<Rightarrow>
          (case fs_unlink (unlink_ok_catch e) (file_path f) w of
             Inl _ \<Rightarrow> (Unhandled, w)
           | Inr w' \<Rightarrow> (Response 500 (Error ''Failed to save recording''), w')))"

definition post_recordings ::
  "env \<Rightarrow> world \<Rightarrow> req_file option \<Rightarrow> string option \<Rightarrow> string option \<Rightarrow> outcome \<times> world" where
  "post_recordings e w file lat_s lng_s =
     (case file of
        None \<Rightarrow> (Response 400 (Error ''No audio file uploaded''), w)
      | Some f \<Rightarrow>
          if not_str lat_s \<or> not_str lng_s then
            (case fs_unlink (unlink_ok_400 e) (file_path f) w of
               Inl _ \<Rightarrow> catch_block e w file
             | Inr w' \<Rightarrow> (Response 400 (Error ''Missing coordinates''), w'))
          else
            (case Sound_create e w (file_filename f) (''/uploads/'' @ file_filename f)
                    (parseFloat_param lat_s) (parseFloat_param lng_s)
                    (file_mimetype f) (file_size f) of
               Inl _ \<Rightarrow> catch_block e w file
             | Inr (recording, w') \<Rightarrow> (Response 201 (Created recording), w')))"

text \<open>The error handling middleware, reached when a middleware calls \<open>next(err)\<close>.\<close>

definition error_middleware :: outcome where
  "error_middleware = Response 500 (Error ''Something went wrong!'')"

text \<open>The route: multer first, then the handler.\<close>

definition ingest :: "env \<Rightarrow> world \<Rightarrow> upload_req \<Rightarrow> outcome \<times> world" where
  "ingest e w r =
     (case upload_single e w (audio r) of
        (MulterError _, w') \<Rightarrow> (error_middleware, w')
      | (NoFile, w') \<Rightarrow> post_recordings e w' None (body_lat r) (body_lng r)
      | (Stored f, w') \<Rightarrow> post_recordings e w' (Some f) (body_lat r) (body_lng r))"


section \<open>Concrete states and requests\<close>

definition empty_world :: world where
  "empty_world = \<lparr>sounds = [], uploads = {}, written = 0\<rparr>"

definition env_ok :: env where
  "env_ok = \<lparr>uniqueSuffix = ''1700000000000-123456789'', extension = ''.mp3'',
              db_write_ok = True, unlink_ok_400 = True, unlink_ok_catch = True\<rparr>"

text \<open>The database refuses the insert and the file cannot be removed.\<close>

definition env_failing :: env where
  "env_failing = \<lparr>uniqueSuffix = ''1700000000000-123456789'', extension = ''.mp3'',
                   db_write_ok = False, unlink_ok_400 = True, unlink_ok_catch = False\<rparr>"


text \<open>No file can be removed.\<close>

definition env_no_unlink :: env where
  "env_no_unlink = \<lparr>uniqueSuffix = ''1700000000000-123456789'', extension = ''.mp3'',
                     db_write_ok = True, unlink_ok_400 = False, unlink_ok_catch = False\<rparr>"

definition mp3_part :: file_part where
  "mp3_part = \<lparr>part_mimetype = ''audio/mpeg'', part_size = 1000\<rparr>"

definition ogg_part :: file_part where
  "ogg_part = \<lparr>part_mimetype = ''audio/ogg'', part_size = 1000\<rparr>"

definition big_part :: file_part where
  "big_part = \<lparr>part_mimetype = ''audio/mpeg'', part_size = 10485761\<rparr>"

definition sound_at :: "nat \<Rightarrow> string \<Rightarrow> real \<Rightarrow> real \<Rightarrow> sound" where
  "sound_at i f x y =
     \<lparr>sound_id = i, filename = f, url = ''/uploads/'' @ f, lat = Num x, lng = Num y,
      mimetype = ''audio/mpeg'', size_bytes = 1000\<rparr>"

definition world_of :: "sound list \<Rightarrow> world" where
  "world_of rows = \<lparr>sounds = rows, uploads = filename ` set rows, written = 0\<rparr>"

text \<open>Two recordings at latitude 0, longitude 0 and one a quarter turn to the east.\<close>

definition sound_a :: sound where
  "sound_a = sound_at 1 ''a.mp3'' 0 0"

definition sound_b :: sound where
  "sound_b = sound_at 2 ''b.mp3'' 0 0"

definition sound_east :: sound where
  "sound_east = sound_at 1 ''east.mp3'' 0 90"


section \<open>Facts about the definitions\<close>

lemmas parseFloat_defs =
  parseFloat_def is_ws1_def is_ws2_def is_ws3_def is_digit_def digit_val_def digits_val_def
  scale10_def to_double_def overflow_bound_def underflow_bound_def

lemmas ingest_defs =
  ingest_def upload_single_def disk_write_def remove_uploaded_def post_recordings_def
  catch_block_def fs_unlink_def Sound_create_def fileFilter_def allowedTypes_def fileSize_def
  error_middleware_def Let_def

lemma parseFloat_Nil: "parseFloat [] = NaN"
  by (simp add: parseFloat_def)

lemma js_or_not_NaN: "js_or v (Num d) \<noteq> NaN"
  by (cases v) auto

subsection \<open>The range of the numbers read\<close>

lemma overflow_bound_pos: "0 < overflow_bound"
  by (simp add: overflow_bound_def)

lemma to_double_range: "to_double v = Num x \<Longrightarrow> \<bar>x\<bar> < overflow_bound"
  using overflow_bound_pos by (auto simp add: to_double_def split: if_splits)

lemma parseFloat_range: "parseFloat s = Num x \<Longrightarrow> \<bar>x\<bar> < overflow_bound"
  by (auto simp add: parseFloat_def Let_def split: prod.splits if_splits
      dest: to_double_range)

lemma searchRadius_range: "searchRadius r = Num x \<Longrightarrow> \<bar>x\<bar> < overflow_bound"
proof (cases r)
  case None
  assume "searchRadius r = Num x"
  with None have "x = 1 / 4"
    by (simp add: searchRadius_def)
  then show ?thesis
    by (simp add: overflow_bound_def)
next
  case (Some s)
  assume a: "searchRadius r = Num x"
  show ?thesis
  proof (cases "parseFloat s")
    case (Num y)
    with a Some have "x = y \<or> x = 1 / 2"
      by (auto simp add: searchRadius_def split: if_splits)
    with parseFloat_range[OF Num] show ?thesis
      by (auto simp add: overflow_bound_def)
  next
    case NaN
    with a Some have "x = 1 / 2"
      by (simp add: searchRadius_def)
    then show ?thesis
      by (simp add: overflow_bound_def)
  next
    case Infinity
    with a Some show ?thesis
      by (simp add: searchRadius_def)
  next
    case NegInfinity
    with a Some show ?thesis
      by (simp add: searchRadius_def)
  qed
qed

lemma js_div_1000_finite:
  assumes "\<bar>x\<bar> < overflow_bound"
  shows "js_div (Num x) 1000 = Num 0 \<or> js_div (Num x) 1000 = Num (x / 1000)"
proof -
  have "\<bar>x / 1000\<bar> \<le> \<bar>x\<bar>"
    by simp
  with assms have "\<bar>x / 1000\<bar> < overflow_bound"
    by linarith
  then show ?thesis
    by (auto simp add: to_double_def)
qed

subsection \<open>The distance\<close>

lemma cos_arg_bounds:
  fixes a b t :: real
  shows "\<bar>cos a * cos b * cos t + sin a * sin b\<bar> \<le> 1"
proof -
  define c where "c = cos a * cos b * cos t + sin a * sin b"
  define X where "X = (1 + cos t) * cos (a - b)"
  define Y where "Y = (1 - cos t) * cos (a + b)"
  have e: "2 * c = X - Y"
    unfolding c_def X_def Y_def by (simp add: cos_diff cos_add algebra_simps)
  have p1: "0 \<le> 1 + cos t"
    using cos_ge_minus_one[of t] by linarith
  have p2: "0 \<le> 1 - cos t"
    using cos_le_one[of t] by linarith
  have X1: "X \<le> 1 + cos t"
    unfolding X_def using mult_left_mono[OF cos_le_one[of "a - b"] p1] by simp
  have X2: "- (1 + cos t) \<le> X"
    unfolding X_def using mult_left_mono[OF cos_ge_minus_one[of "a - b"] p1] by simp
  have Y1: "Y \<le> 1 - cos t"
    unfolding Y_def using mult_left_mono[OF cos_le_one[of "a + b"] p2] by simp
  have Y2: "- (1 - cos t) \<le> Y"
    unfolding Y_def using mult_left_mono[OF cos_ge_minus_one[of "a + b"] p2] by simp
  have "- 2 \<le> 2 * c" and "2 * c \<le> 2"
    using e X1 X2 Y1 Y2 by linarith+
  then show ?thesis
    unfolding c_def by (simp add: abs_le_iff)
qed

lemma sin_half_squared: "(sin (x / 2))\<^sup>2 = (1 - cos x) / (2::real)"
  using cos_double_sin[of "x / 2"] by simp

lemma haversine_eq_cosines:
  fixes a b t :: real
  defines "c \<equiv> cos a * cos b * cos t + sin a * sin b"
  defines "h \<equiv> (sin ((b - a) / 2))\<^sup>2 + cos a * cos b * (sin (t / 2))\<^sup>2"
  shows "2 * arcsin (sqrt h) = arccos c"
proof -
  have ch: "c = 1 - 2 * h"
    unfolding c_def h_def sin_half_squared
    by (simp add: cos_diff field_simps)
  have cb: "\<bar>c\<bar> \<le> 1" unfolding c_def by (rule cos_arg_bounds)
  have h0: "0 \<le> h" and h1: "h \<le> 1" using ch cb by (auto simp: abs_le_iff)
  define th where "th = arcsin (sqrt h)"
  have s1: "sqrt h \<le> 1" using h1 by simp
  have s0: "0 \<le> sqrt h" using h0 by simp
  have sth: "sin th = sqrt h"
    unfolding th_def using s0 s1 by (intro sin_arcsin) linarith+
  have th0: "0 \<le> th"
    unfolding th_def using s0 s1 by (intro arcsin_nonneg) simp
  have thp: "th \<le> pi / 2"
    unfolding th_def using s0 s1 by (intro arcsin_ubound) linarith+
  have "cos (2 * th) = 1 - 2 * (sin th)\<^sup>2" by (rule cos_double_sin)
  also have "\<dots> = c" using sth h0 ch by simp
  finally have "arccos c = arccos (cos (2 * th))" by simp
  also have "\<dots> = 2 * th" using th0 thp by (intro arccos_cos) auto
  finally show ?thesis by (simp add: th_def)
qed

text \<open>
  In exact arithmetic the argument of \<open>arccos\<close> in \<open>distance\<close> is always between -1 and
  1 (\<open>cos_arg_bounds\<close>), and the distance of the statement is the haversine distance.
  The program computes in doubles, where neither holds: at a few coincident points the
  rounded argument is just above 1.
\<close>

lemma arccos_arg_nonneg:
  fixes a b t :: real
  shows "0 \<le> arccos (cos a * cos b * cos t + sin a * sin b)"
  using cos_arg_bounds[of a b t] by (intro arccos_lbound) (simp_all add: abs_le_iff)

lemma distance_nonneg: "distance latitude longitude s = Some d \<Longrightarrow> 0 \<le> d"
  unfolding distance_def
  by (auto simp add: arccos_arg_nonneg split: jsnum.splits)

lemma distance_haversine_exact:
  "lat s = Num row_lat \<Longrightarrow> lng s = Num row_lng \<Longrightarrow>
   distance latitude longitude s = Some (haversine_spec latitude longitude row_lat row_lng)"
  unfolding distance_def haversine_spec_def haversine_eq_cosines[symmetric]
  by simp

lemma distance_same_point: "distance 0 0 (sound_at i f 0 0) = Some 0"
  by (simp add: distance_def radians_def sound_at_def)

lemma distance_quarter_turn: "distance 0 0 (sound_at i f 0 90) = Some (6371 * pi / 2)"
  by (simp add: distance_def radians_def sound_at_def)

subsection \<open>The query\<close>

lemma nearby_sorted: "sorted (map snd (nearby rows a b r))"
  by (simp add: nearby_def take_map[symmetric])

lemma nearby_length: "length (nearby rows a b r) \<le> 100"
  by (simp add: nearby_def)

lemma filter_take_prefix: "prefix (filter P (take n xs)) (filter P xs)"
proof -
  have "filter P xs = filter P (take n xs) @ filter P (drop n xs)"
    by (simp flip: filter_append)
  then show ?thesis by (metis prefixI)
qed

lemma nearby_ties:
  "prefix (map fst (filter (\<lambda>h. snd h = k) (nearby rows a b r)))
          (filter (\<lambda>s. distance a b s = Some k) rows)"
proof -
  let ?hits = "List.map_filter (where_distance a b r) rows"
  have "prefix (filter (\<lambda>h. snd h = k) (nearby rows a b r))
               (filter (\<lambda>h. snd h = k) (sort_key snd ?hits))"
    unfolding nearby_def by (rule filter_take_prefix)
  then have "prefix (filter (\<lambda>h. snd h = k) (nearby rows a b r))
               (filter (\<lambda>h. snd h = k) ?hits)"
    by (simp only: sort_key_stable)
  then have p: "prefix (map fst (filter (\<lambda>h. snd h = k) (nearby rows a b r)))
               (map fst (filter (\<lambda>h. snd h = k) ?hits))"
    by (rule map_mono_prefix)
  have "map fst (filter (\<lambda>h. snd h = k) ?hits) =
        (if k < r then filter (\<lambda>s. distance a b s = Some k) rows else [])"
    by (induction rows)
       (auto simp add: where_distance_def split: option.splits)
  with p show ?thesis by (auto split: if_splits)
qed

lemma nearby_nonpositive_radius: "r \<le> 0 \<Longrightarrow> nearby rows a b r = []"
proof -
  assume r: "r \<le> 0"
  have "where_distance a b r s = None" for s
    using distance_nonneg[of a b s] r
    by (auto simp add: where_distance_def split: option.splits)
  then have "List.map_filter (where_distance a b r) rows = []"
    by (induction rows) simp_all
  then show ?thesis by (simp add: nearby_def)
qed

lemma get_recordings_finite:
  assumes "\<not> not_str (q_lat q)" and "\<not> not_str (q_lng q)"
    and "latitude_of q = Num a" and "longitude_of q = Num b"
    and "js_div (searchRadius (q_radius q)) 1000 = Num r"
  shows "get_recordings True w q = Response 200 (Rows (nearby (sounds w) a b r))"
  using assms by (simp add: get_recordings_def sequelize_query_def)

lemma center_zero:
  "latitude_of \<lparr>q_lat = Some ''0'', q_lng = Some ''0'', q_radius = r\<rparr> = Num 0"
  "longitude_of \<lparr>q_lat = Some ''0'', q_lng = Some ''0'', q_radius = r\<rparr> = Num 0"
  by (simp_all add: latitude_of_def longitude_of_def parseFloat_defs)

lemma default_radius: "js_div (searchRadius None) 1000 = Num (1 / 4000)"
  by (simp add: searchRadius_def to_double_def overflow_bound_def underflow_bound_def)

subsection \<open>The upload\<close>

lemma upload_single_cases:
  "upload_single e w part =
     (case part of None \<Rightarrow> (NoFile, w)
      | Some file \<Rightarrow>
         if part_mimetype file \<notin> set allowedTypes
         then (MulterError ''Invalid file type. Only audio files are allowed.'', w)
         else if fileSize < part_size file
         then (MulterError ''File too large'',
               w\<lparr>uploads := uploads w - {uniqueSuffix e @ extension e},
                  written := written w + fileSize\<rparr>)
         else (Stored \<lparr>file_filename = uniqueSuffix e @ extension e,
                        file_path = uniqueSuffix e @ extension e,
                        file_mimetype = part_mimetype file, file_size = part_size file\<rparr>,
               w\<lparr>uploads := insert (uniqueSuffix e @ extension e) (uploads w),
                  written := written w + part_size file\<rparr>))"
  by (auto simp add: upload_single_def fileFilter_def disk_write_def remove_uploaded_def
      Let_def min_def split: option.splits)



section \<open>The claims\<close>

text \<open>
  C1. The claim: Search returns exactly the stored Recordings whose distance from the
  center is below the radius given in kilometres. The handler passes
  \<open>searchRadius / 1000\<close> to the statement, so a Recording well inside the radius is
  left out: with the center at (0, 0) and \<open>radius=13000\<close>, the Recording at (0, 90) is
  \<open>6371 * pi / 2\<close> km away, less than 13000 km, and the answer is the empty list.
\<close>

theorem C1_radius_is_divided_by_1000:
  "distance 0 0 sound_east = Some (6371 * pi / 2) \<and>
   6371 * pi / 2 < (13000::real) \<and>
   get_recordings True (world_of [sound_east])
     \<lparr>q_lat = Some ''0'', q_lng = Some ''0'', q_radius = Some ''13000''\<rparr>
     = Response 200 (Rows [])"
proof -
  have d: "distance 0 0 sound_east = Some (6371 * pi / 2)"
    unfolding sound_east_def by (rule distance_quarter_turn)
  have lt: "6371 * pi / 2 < (13000::real)" using pi_less_4 by linarith
  have ge: "\<not> 6371 * pi / 2 < (13::real)" using pi_ge_two by linarith
  have r: "js_div (searchRadius (Some ''13000'')) 1000 = Num 13"
    by (simp add: searchRadius_def parseFloat_defs)
  have "get_recordings True (world_of [sound_east])
     \<lparr>q_lat = Some ''0'', q_lng = Some ''0'', q_radius = Some ''13000''\<rparr>
     = Response 200 (Rows (nearby [sound_east] 0 0 13))"
    using get_recordings_finite[of
        "\<lparr>q_lat = Some ''0'', q_lng = Some ''0'', q_radius = Some ''13000''\<rparr>" 0 0 13
        "world_of [sound_east]"] center_zero r
    by (simp add: world_of_def)
  moreover have "nearby [sound_east] 0 0 13 = []"
    using ge by (simp add: nearby_def where_distance_def d)
  ultimately show ?thesis
    using d lt by simp
qed




text \<open>
  C3. The claim: a Search without \<open>radius\<close> filters with 0.5 km. The destructuring
  default makes the radius 0.25: a request without \<open>radius\<close> is answered exactly as
  one with \<open>radius=0.25\<close>.
\<close>

theorem C3_omitted_radius_is_a_quarter:
  "searchRadius None = Num (1 / 4) \<and>
   get_recordings ok w \<lparr>q_lat = la, q_lng = lo, q_radius = None\<rparr> =
   get_recordings ok w \<lparr>q_lat = la, q_lng = lo, q_radius = Some ''0.25''\<rparr>"
  by (simp add: searchRadius_def get_recordings_def latitude_of_def longitude_of_def
      parseFloat_defs)

text \<open>
  C4. The claim: a Create request with a latitude or longitude out of range fails and
  persists nothing. The handler has no range check: an upload with \<open>lat=91\<close> is
  answered 201, and the row with latitude 91 and its file are kept.
\<close>

theorem C4_latitude_91_is_stored:
  "ingest env_ok empty_world
       \<lparr>audio = Some mp3_part, body_lat = Some ''91'', body_lng = Some ''0''\<rparr>
     = (Response 201 (Created (sound_at 1 ''1700000000000-123456789.mp3'' 91 0)),
        \<lparr>sounds = [sound_at 1 ''1700000000000-123456789.mp3'' 91 0],
         uploads = {''1700000000000-123456789.mp3''}, written = 1000\<rparr>) \<and>
   lat (sound_at 1 ''1700000000000-123456789.mp3'' 91 0) = Num 91 \<and>
   \<not> (91::real) \<le> 90"
  by (simp add: ingest_defs mp3_part_def env_ok_def empty_world_def parseFloat_defs
      sound_at_def)

text \<open>
  C4, amended. An upload of an allowed type and size whose \<open>lat\<close> and \<open>lng\<close> read as
  numbers is stored with exactly these numbers, whatever their range, when the database
  accepts the insert: the answer is 201 with the new row, and the row and the file are
  added to the state.
\<close>

theorem C4_create_stores_the_parsed_coordinates:
  assumes "fileFilter file" and "part_size file \<le> fileSize" and "db_write_ok e"
    and "parseFloat la = Num x" and "parseFloat lo = Num y"
  shows "ingest e w \<lparr>audio = Some file, body_lat = Some la, body_lng = Some lo\<rparr> =
     (Response 201 (Created \<lparr>sound_id = Suc (length (sounds w)),
          filename = uniqueSuffix e @ extension e,
          url = ''/uploads/'' @ uniqueSuffix e @ extension e,
          lat = Num x, lng = Num y, mimetype = part_mimetype file,
          size_bytes = part_size file\<rparr>),
      w\<lparr>sounds := sounds w @ [\<lparr>sound_id = Suc (length (sounds w)),
          filename = uniqueSuffix e @ extension e,
          url = ''/uploads/'' @ uniqueSuffix e @ extension e,
          lat = Num x, lng = Num y, mimetype = part_mimetype file,
          size_bytes = part_size file\<rparr>],
        uploads := insert (uniqueSuffix e @ extension e) (uploads w),
        written := written w + part_size file\<rparr>)"
proof -
  from assms(4,5) have "la \<noteq> []" "lo \<noteq> []"
    using parseFloat_Nil by auto
  with assms show ?thesis
    by (simp add: ingest_def upload_single_def disk_write_def post_recordings_def
        Sound_create_def Let_def min_def)
qed

text \<open>C4, amended, at a longitude of 181.\<close>

theorem C4_create_stores_the_parsed_coordinates_witness:
  "fileFilter mp3_part \<and> part_size mp3_part \<le> fileSize \<and> db_write_ok env_ok \<and>
   parseFloat ''45'' = Num 45 \<and> parseFloat ''181'' = Num 181 \<and>
   ingest env_ok empty_world
       \<lparr>audio = Some mp3_part, body_lat = Some ''45'', body_lng = Some ''181''\<rparr>
     = (Response 201 (Created (sound_at 1 ''1700000000000-123456789.mp3'' 45 181)),
        \<lparr>sounds = [sound_at 1 ''1700000000000-123456789.mp3'' 45 181],
         uploads = {''1700000000000-123456789.mp3''}, written = 1000\<rparr>)"
proof -
  have a: "fileFilter mp3_part"
    by (simp add: fileFilter_def mp3_part_def allowedTypes_def)
  have b: "part_size mp3_part \<le> fileSize"
    by (simp add: mp3_part_def fileSize_def)
  have c: "db_write_ok env_ok"
    by (simp add: env_ok_def)
  have d: "parseFloat ''45'' = Num 45"
    by (simp add: parseFloat_defs)
  have e: "parseFloat ''181'' = Num 181"
    by (simp add: parseFloat_defs)
  from C4_create_stores_the_parsed_coordinates[OF a b c d e, of empty_world] a b c d e
  show ?thesis
    by (simp add: env_ok_def empty_world_def mp3_part_def sound_at_def)
qed

text \<open>
  C6. Every list of results is sorted by non-decreasing distance and has at most 100
  items, and for every distance the results at that distance appear in the order in
  which the catalog holds them (they are a prefix of the catalog rows at that distance).
\<close>

theorem C6_results_sorted_stable_and_limited:
  assumes "get_recordings ok w q = Response 200 (Rows rs)"
  shows "sorted (map snd rs) \<and> length rs \<le> 100 \<and>
     (\<exists>a b. latitude_of q = Num a \<and> longitude_of q = Num b \<and>
        (\<forall>k. prefix (map fst (filter (\<lambda>h. snd h = k) rs))
               (filter (\<lambda>s. distance a b s = Some k) (sounds w))))"
proof -
  from assms obtain a b r where c: "latitude_of q = Num a" "longitude_of q = Num b"
    and rs: "rs = nearby (sounds w) a b r"
    by (auto simp add: get_recordings_def sequelize_query_def
        split: if_splits sum.splits jsnum.splits)
  from rs have "\<forall>k. prefix (map fst (filter (\<lambda>h. snd h = k) rs))
               (filter (\<lambda>s. distance a b s = Some k) (sounds w))"
    by (simp add: nearby_ties)
  with c rs show ?thesis
    by (simp add: nearby_sorted nearby_length)
qed

text \<open>C6, for two Recordings at the center: both are returned, the older one first.\<close>

theorem C6_results_sorted_stable_and_limited_witness:
  "get_recordings True (world_of [sound_a, sound_b])
      \<lparr>q_lat = Some ''0'', q_lng = Some ''0'', q_radius = None\<rparr>
     = Response 200 (Rows [(sound_a, 0), (sound_b, 0)]) \<and>
   sorted (map snd [(sound_a, 0::real), (sound_b, 0)]) \<and>
   length [(sound_a, 0::real), (sound_b, 0)] \<le> 100 \<and>
   prefix (map fst (filter (\<lambda>h. snd h = 0) [(sound_a, 0::real), (sound_b, 0)]))
      (filter (\<lambda>s. distance 0 0 s = Some 0) [sound_a, sound_b])"
proof -
  have d: "distance 0 0 sound_a = Some 0" "distance 0 0 sound_b = Some 0"
    by (simp_all add: sound_a_def sound_b_def distance_same_point)
  have n: "nearby [sound_a, sound_b] 0 0 (1 / 4000) = [(sound_a, 0), (sound_b, 0)]"
    by (simp add: nearby_def where_distance_def d)
  have g: "get_recordings True (world_of [sound_a, sound_b])
      \<lparr>q_lat = Some ''0'', q_lng = Some ''0'', q_radius = None\<rparr>
     = Response 200 (Rows [(sound_a, 0), (sound_b, 0)])"
    using get_recordings_finite[of
        "\<lparr>q_lat = Some ''0'', q_lng = Some ''0'', q_radius = None\<rparr>" 0 0 "1 / 4000"
        "world_of [sound_a, sound_b]"] center_zero default_radius n
    by (simp add: world_of_def)
  from C6_results_sorted_stable_and_limited[OF g] show ?thesis
    using g d by (simp add: center_zero world_of_def)
qed

text \<open>
  C7. The claim: a Search whose \<open>lat\<close> or \<open>lng\<close> is present but not a valid
  coordinate is rejected with a validation error. The handler replaces a value that
  does not read as a number by 0 and runs the query: \<open>lat=abc\<close> with \<open>lng=0\<close> is
  answered 200 with the Recording at (0, 0).
\<close>

theorem C7_non_numeric_latitude_is_searched_as_zero:
  "get_recordings True (world_of [sound_a])
      \<lparr>q_lat = Some ''abc'', q_lng = Some ''0'', q_radius = None\<rparr>
     = Response 200 (Rows [(sound_a, 0)])"
proof -
  have c: "latitude_of \<lparr>q_lat = Some ''abc'', q_lng = Some ''0'', q_radius = None\<rparr> = Num 0"
       "longitude_of \<lparr>q_lat = Some ''abc'', q_lng = Some ''0'', q_radius = None\<rparr> = Num 0"
    by (simp_all add: latitude_of_def longitude_of_def parseFloat_defs)
  have n: "nearby [sound_a] 0 0 (1 / 4000) = [(sound_a, 0)]"
    by (simp add: nearby_def where_distance_def sound_a_def distance_same_point)
  show ?thesis
    using get_recordings_finite[of
        "\<lparr>q_lat = Some ''abc'', q_lng = Some ''0'', q_radius = None\<rparr>" 0 0 "1 / 4000"
        "world_of [sound_a]"] c default_radius n
    by (simp add: world_of_def)
qed

text \<open>
  C7, amended. A Search without \<open>lat\<close> or without \<open>lng\<close> (absent or empty) is
  answered 400 \<open>Missing coordinates\<close>. When both are present the center is not
  validated: a value that does not read as a number is replaced by 0, every other value
  is used as it is read, and the query is run with this center; its rows are the answer,
  with 200, and when it fails the answer is 500 \<open>Failed to fetch recordings\<close>. With a
  finite center and radius and a database that can be read the answer is 200 with a
  list, the empty list for an empty catalog. A \<open>lat\<close> or \<open>lng\<close> that reads as an
  infinity makes the query fail.
\<close>

theorem C7_center_is_required_but_not_validated:
  "(not_str la \<or> not_str lo \<longrightarrow>
      get_recordings ok w \<lparr>q_lat = la, q_lng = lo, q_radius = r\<rparr>
        = Response 400 (Error ''Missing coordinates'')) \<and>
   (\<not> not_str la \<and> \<not> not_str lo \<longrightarrow>
      latitude_of \<lparr>q_lat = la, q_lng = lo, q_radius = r\<rparr> =
        (case parseFloat_param la of
           NaN \<Rightarrow> Num 0 | Num x \<Rightarrow> Num x
         | Infinity \<Rightarrow> Infinity | NegInfinity \<Rightarrow> NegInfinity) \<and>
      longitude_of \<lparr>q_lat = la, q_lng = lo, q_radius = r\<rparr> =
        (case parseFloat_param lo of
           NaN \<Rightarrow> Num 0 | Num y \<Rightarrow> Num y
         | Infinity \<Rightarrow> Infinity | NegInfinity \<Rightarrow> NegInfinity) \<and>
      get_recordings ok w \<lparr>q_lat = la, q_lng = lo, q_radius = r\<rparr> =
        (case sequelize_query ok (sounds w)
                (latitude_of \<lparr>q_lat = la, q_lng = lo, q_radius = r\<rparr>)
                (longitude_of \<lparr>q_lat = la, q_lng = lo, q_radius = r\<rparr>)
                (js_div (searchRadius r) 1000) of
           Inr recordings \<Rightarrow> Response 200 (Rows recordings)
         | Inl _ \<Rightarrow> Response 500 (Error ''Failed to fetch recordings'')) \<and>
      (\<forall>a b \<rho>.
          latitude_of \<lparr>q_lat = la, q_lng = lo, q_radius = r\<rparr> = Num a \<and>
          longitude_of \<lparr>q_lat = la, q_lng = lo, q_radius = r\<rparr> = Num b \<and>
          js_div (searchRadius r) 1000 = Num \<rho> \<longrightarrow>
            (\<exists>rs. get_recordings True w \<lparr>q_lat = la, q_lng = lo, q_radius = r\<rparr>
                    = Response 200 (Rows rs)) \<and>
            (sounds w = [] \<longrightarrow>
               get_recordings True w \<lparr>q_lat = la, q_lng = lo, q_radius = r\<rparr>
                 = Response 200 (Rows []))) \<and>
      (latitude_of \<lparr>q_lat = la, q_lng = lo, q_radius = r\<rparr> \<in> {Infinity, NegInfinity} \<or>
       longitude_of \<lparr>q_lat = la, q_lng = lo, q_radius = r\<rparr> \<in> {Infinity, NegInfinity} \<longrightarrow>
         get_recordings ok w \<lparr>q_lat = la, q_lng = lo, q_radius = r\<rparr>
           = Response 500 (Error ''Failed to fetch recordings'')))"
proof (intro conjI impI allI)
  assume "not_str la \<or> not_str lo"
  then show "get_recordings ok w \<lparr>q_lat = la, q_lng = lo, q_radius = r\<rparr>
        = Response 400 (Error ''Missing coordinates'')"
    by (auto simp add: get_recordings_def)
next
  show "latitude_of \<lparr>q_lat = la, q_lng = lo, q_radius = r\<rparr> =
        (case parseFloat_param la of
           NaN \<Rightarrow> Num 0 | Num x \<Rightarrow> Num x
         | Infinity \<Rightarrow> Infinity | NegInfinity \<Rightarrow> NegInfinity)"
    by (simp add: latitude_of_def split: jsnum.splits)
next
  show "longitude_of \<lparr>q_lat = la, q_lng = lo, q_radius = r\<rparr> =
        (case parseFloat_param lo of
           NaN \<Rightarrow> Num 0 | Num y \<Rightarrow> Num y
         | Infinity \<Rightarrow> Infinity | NegInfinity \<Rightarrow> NegInfinity)"
    by (simp add: longitude_of_def split: jsnum.splits)
next
  assume "\<not> not_str la \<and> \<not> not_str lo"
  then show "get_recordings ok w \<lparr>q_lat = la, q_lng = lo, q_radius = r\<rparr> =
        (case sequelize_query ok (sounds w)
                (latitude_of \<lparr>q_lat = la, q_lng = lo, q_radius = r\<rparr>)
                (longitude_of \<lparr>q_lat = la, q_lng = lo, q_radius = r\<rparr>)
                (js_div (searchRadius r) 1000) of
           Inr recordings \<Rightarrow> Response 200 (Rows recordings)
         | Inl _ \<Rightarrow> Response 500 (Error ''Failed to fetch recordings''))"
    by (simp add: get_recordings_def)
next
  fix a b \<rho>
  assume p: "\<not> not_str la \<and> \<not> not_str lo"
    and f: "latitude_of \<lparr>q_lat = la, q_lng = lo, q_radius = r\<rparr> = Num a \<and>
          longitude_of \<lparr>q_lat = la, q_lng = lo, q_radius = r\<rparr> = Num b \<and>
          js_div (searchRadius r) 1000 = Num \<rho>"
  then have g: "get_recordings True w \<lparr>q_lat = la, q_lng = lo, q_radius = r\<rparr>
              = Response 200 (Rows (nearby (sounds w) a b \<rho>))"
    by (intro get_recordings_finite) simp_all
  then show "\<exists>rs. get_recordings True w \<lparr>q_lat = la, q_lng = lo, q_radius = r\<rparr>
                    = Response 200 (Rows rs)"
    by blast
  assume "sounds w = []"
  with g show "get_recordings True w \<lparr>q_lat = la, q_lng = lo, q_radius = r\<rparr>
                 = Response 200 (Rows [])"
    by (simp add: nearby_def)
next
  assume p: "\<not> not_str la \<and> \<not> not_str lo"
    and "latitude_of \<lparr>q_lat = la, q_lng = lo, q_radius = r\<rparr> \<in> {Infinity, NegInfinity} \<or>
       longitude_of \<lparr>q_lat = la, q_lng = lo, q_radius = r\<rparr> \<in> {Infinity, NegInfinity}"
  then show "get_recordings ok w \<lparr>q_lat = la, q_lng = lo, q_radius = r\<rparr>
           = Response 500 (Error ''Failed to fetch recordings'')"
    by (auto simp add: get_recordings_def sequelize_query_def split: jsnum.splits)
qed

text \<open>
  C7, amended, at concrete requests: no \<open>lat\<close>; \<open>lat=xyz\<close> and \<open>lat=0\<close>,
  \<open>lng=90\<close> against one Recording at (0, 0); \<open>lng=xyz\<close> against the empty catalog;
  \<open>lat=Infinity\<close>.
\<close>

theorem C7_center_is_required_but_not_validated_witness:
  "not_str None \<and>
   get_recordings True (world_of [sound_a])
      \<lparr>q_lat = None, q_lng = Some ''0'', q_radius = None\<rparr>
     = Response 400 (Error ''Missing coordinates'') \<and>
   \<not> not_str (Some ''xyz'') \<and> \<not> not_str (Some ''0'') \<and>
   latitude_of \<lparr>q_lat = Some ''xyz'', q_lng = Some ''0'', q_radius = None\<rparr> = Num 0 \<and>
   get_recordings True (world_of [sound_a])
      \<lparr>q_lat = Some ''xyz'', q_lng = Some ''0'', q_radius = None\<rparr>
     = Response 200 (Rows [(sound_a, 0)]) \<and>
   longitude_of \<lparr>q_lat = Some ''0'', q_lng = Some ''90'', q_radius = None\<rparr> = Num 90 \<and>
   get_recordings True (world_of [sound_a])
      \<lparr>q_lat = Some ''0'', q_lng = Some ''90'', q_radius = None\<rparr>
     = Response 200 (Rows []) \<and>
   sounds empty_world = [] \<and>
   get_recordings True empty_world
      \<lparr>q_lat = Some ''0'', q_lng = Some ''xyz'', q_radius = None\<rparr>
     = Response 200 (Rows []) \<and>
   latitude_of \<lparr>q_lat = Some ''Infinity'', q_lng = Some ''0'', q_radius = None\<rparr> = Infinity \<and>
   get_recordings True (world_of [sound_a])
      \<lparr>q_lat = Some ''Infinity'', q_lng = Some ''0'', q_radius = None\<rparr>
     = Response 500 (Error ''Failed to fetch recordings'')"
proof -
  have p: "\<not> not_str (Some ''xyz'')" "\<not> not_str (Some ''0'')" "not_str None"
    "\<not> not_str (Some ''90'')" "\<not> not_str (Some ''Infinity'')"
    by simp_all
  have e: "sounds empty_world = []"
    by (simp add: empty_world_def)
  have s: "sounds (world_of [sound_a]) = [sound_a]"
    by (simp add: world_of_def)
  have lx: "latitude_of \<lparr>q_lat = Some ''xyz'', q_lng = Some ''0'', q_radius = None\<rparr> = Num 0"
    and l0: "longitude_of \<lparr>q_lat = Some ''xyz'', q_lng = Some ''0'', q_radius = None\<rparr> = Num 0"
    and l90: "latitude_of \<lparr>q_lat = Some ''0'', q_lng = Some ''90'', q_radius = None\<rparr> = Num 0"
    and l90': "longitude_of \<lparr>q_lat = Some ''0'', q_lng = Some ''90'', q_radius = None\<rparr> = Num 90"
    and le: "latitude_of \<lparr>q_lat = Some ''0'', q_lng = Some ''xyz'', q_radius = None\<rparr> = Num 0"
    and le': "longitude_of \<lparr>q_lat = Some ''0'', q_lng = Some ''xyz'', q_radius = None\<rparr> = Num 0"
    and li: "latitude_of \<lparr>q_lat = Some ''Infinity'', q_lng = Some ''0'', q_radius = None\<rparr>
               = Infinity"
    by (simp_all add: latitude_of_def longitude_of_def parseFloat_defs)
  have d0: "distance 0 0 sound_a = Some 0"
    by (simp add: sound_a_def distance_same_point)
  have d90: "distance 0 90 sound_a = Some (6371 * pi / 2)"
    by (simp add: sound_a_def sound_at_def distance_def radians_def)
  have far: "\<not> 6371 * pi / 2 < (1 / 4000 :: real)"
    using pi_ge_two by linarith
  have q0: "sequelize_query True [sound_a] (Num 0) (Num 0) (Num (1 / 4000))
              = Inr [(sound_a, 0)]"
    by (simp add: sequelize_query_def nearby_def where_distance_def d0)
  have q90: "sequelize_query True [sound_a] (Num 0) (Num 90) (Num (1 / 4000)) = Inr []"
    using far by (simp add: sequelize_query_def nearby_def where_distance_def d90)
  have 1: "get_recordings True (world_of [sound_a])
      \<lparr>q_lat = None, q_lng = Some ''0'', q_radius = None\<rparr>
     = Response 400 (Error ''Missing coordinates'')"
    using C7_center_is_required_but_not_validated
            [of None "Some ''0''" True "world_of [sound_a]" None] p
    by blast
  have "get_recordings True (world_of [sound_a])
      \<lparr>q_lat = Some ''xyz'', q_lng = Some ''0'', q_radius = None\<rparr>
     = (case sequelize_query True [sound_a] (Num 0) (Num 0) (Num (1 / 4000)) of
           Inr recordings \<Rightarrow> Response 200 (Rows recordings)
         | Inl _ \<Rightarrow> Response 500 (Error ''Failed to fetch recordings''))"
    using C7_center_is_required_but_not_validated
            [of "Some ''xyz''" "Some ''0''" True "world_of [sound_a]" None]
          p lx l0 default_radius s
    by metis
  then have 2: "get_recordings True (world_of [sound_a])
      \<lparr>q_lat = Some ''xyz'', q_lng = Some ''0'', q_radius = None\<rparr>
     = Response 200 (Rows [(sound_a, 0)])"
    by (simp add: q0)
  have "get_recordings True (world_of [sound_a])
      \<lparr>q_lat = Some ''0'', q_lng = Some ''90'', q_radius = None\<rparr>
     = (case sequelize_query True [sound_a] (Num 0) (Num 90) (Num (1 / 4000)) of
           Inr recordings \<Rightarrow> Response 200 (Rows recordings)
         | Inl _ \<Rightarrow> Response 500 (Error ''Failed to fetch recordings''))"
    using C7_center_is_required_but_not_validated
            [of "Some ''0''" "Some ''90''" True "world_of [sound_a]" None]
          p l90 l90' default_radius s
    by metis
  then have 3: "get_recordings True (world_of [sound_a])
      \<lparr>q_lat = Some ''0'', q_lng = Some ''90'', q_radius = None\<rparr>
     = Response 200 (Rows [])"
    by (simp add: q90)
  have 4: "get_recordings True empty_world
      \<lparr>q_lat = Some ''0'', q_lng = Some ''xyz'', q_radius = None\<rparr>
     = Response 200 (Rows [])"
    using C7_center_is_required_but_not_validated
            [of "Some ''0''" "Some ''xyz''" True empty_world None]
          p le le' default_radius e
    by metis
  have 5: "get_recordings True (world_of [sound_a])
      \<lparr>q_lat = Some ''Infinity'', q_lng = Some ''0'', q_radius = None\<rparr>
     = Response 500 (Error ''Failed to fetch recordings'')"
    using C7_center_is_required_but_not_validated
            [of "Some ''Infinity''" "Some ''0''" True "world_of [sound_a]" None]
          p li
    by (metis insertI1)
  from p e lx l90' li 1 2 3 4 5 show ?thesis
    by (intro conjI)
qed

text \<open>
  C8. The claim: an upload of a type that is not allowed, and an upload larger than
  10 MiB, is rejected before any bytes are written, with HTTP 400 or 413. Both end in
  the error handling middleware: an \<open>audio/ogg\<close> upload is answered 500
  \<open>Something went wrong!\<close>; so is an \<open>audio/mpeg\<close> upload of 10 MiB and one byte,
  after 10 MiB of it have been written to the upload directory.
\<close>

theorem C8_refused_uploads_are_answered_500:
  "ingest env_ok empty_world
       \<lparr>audio = Some ogg_part, body_lat = Some ''1'', body_lng = Some ''2''\<rparr>
     = (Response 500 (Error ''Something went wrong!''), empty_world) \<and>
   ingest env_ok empty_world
       \<lparr>audio = Some big_part, body_lat = Some ''1'', body_lng = Some ''2''\<rparr>
     = (Response 500 (Error ''Something went wrong!''),
        \<lparr>sounds = [], uploads = {}, written = 10485760\<rparr>)"
  by (simp add: ingest_defs ogg_part_def big_part_def env_ok_def empty_world_def)

text \<open>
  C8, amended. An upload whose content type is not one of \<open>audio/mpeg\<close>,
  \<open>audio/wav\<close>, \<open>audio/webm\<close> is rejected before any bytes are written: the state,
  with its count of bytes written, is as before. An upload of an allowed type that is
  longer than 10 MiB is rejected after the storage engine has written its first 10 MiB;
  the file is removed again and no row is written. Both are answered 500
  \<open>Something went wrong!\<close>.
\<close>

theorem C8_refused_upload_is_answered_500:
  "(part_mimetype file \<notin> set allowedTypes \<longrightarrow>
      ingest e w \<lparr>audio = Some file, body_lat = la, body_lng = lo\<rparr> =
        (Response 500 (Error ''Something went wrong!''), w)) \<and>
   (part_mimetype file \<in> set allowedTypes \<and> fileSize < part_size file \<longrightarrow>
      ingest e w \<lparr>audio = Some file, body_lat = la, body_lng = lo\<rparr> =
        (Response 500 (Error ''Something went wrong!''),
         w\<lparr>uploads := uploads w - {uniqueSuffix e @ extension e},
           written := written w + fileSize\<rparr>))"
  by (simp add: ingest_def upload_single_cases error_middleware_def)

text \<open>
  C8, amended, for an \<open>audio/wma\<close> file and for an \<open>audio/mpeg\<close> file of 10 MiB and
  one byte.
\<close>

theorem C8_refused_upload_is_answered_500_witness:
  "part_mimetype \<lparr>part_mimetype = ''audio/wma'', part_size = 5\<rparr> \<notin> set allowedTypes \<and>
   ingest env_ok empty_world
       \<lparr>audio = Some \<lparr>part_mimetype = ''audio/wma'', part_size = 5\<rparr>,
        body_lat = Some ''1'', body_lng = Some ''2''\<rparr>
     = (Response 500 (Error ''Something went wrong!''), empty_world) \<and>
   part_mimetype big_part \<in> set allowedTypes \<and> fileSize < part_size big_part \<and>
   ingest env_ok empty_world
       \<lparr>audio = Some big_part, body_lat = Some ''1'', body_lng = Some ''2''\<rparr>
     = (Response 500 (Error ''Something went wrong!''),
        empty_world\<lparr>uploads := uploads empty_world - {uniqueSuffix env_ok @ extension env_ok},
           written := written empty_world + fileSize\<rparr>)"
proof -
  have t: "part_mimetype \<lparr>part_mimetype = ''audio/wma'', part_size = 5\<rparr> \<notin> set allowedTypes"
    by (simp add: allowedTypes_def)
  have b: "part_mimetype big_part \<in> set allowedTypes" "fileSize < part_size big_part"
    by (simp_all add: fileSize_def big_part_def allowedTypes_def)
  have 1: "ingest env_ok empty_world
       \<lparr>audio = Some \<lparr>part_mimetype = ''audio/wma'', part_size = 5\<rparr>,
        body_lat = Some ''1'', body_lng = Some ''2''\<rparr>
     = (Response 500 (Error ''Something went wrong!''), empty_world)"
    using C8_refused_upload_is_answered_500
            [of "\<lparr>part_mimetype = ''audio/wma'', part_size = 5\<rparr>" env_ok empty_world
                "Some ''1''" "Some ''2''"] t
    by blast
  have 2: "ingest env_ok empty_world
       \<lparr>audio = Some big_part, body_lat = Some ''1'', body_lng = Some ''2''\<rparr>
     = (Response 500 (Error ''Something went wrong!''),
        empty_world\<lparr>uploads := uploads empty_world - {uniqueSuffix env_ok @ extension env_ok},
           written := written empty_world + fileSize\<rparr>)"
    using C8_refused_upload_is_answered_500
            [of big_part env_ok empty_world "Some ''1''" "Some ''2''"] b
    by blast
  from t b 1 2 show ?thesis
    by (intro conjI)
qed

text \<open>
  C9. The claim: when the metadata write fails and the compensating delete fails too,
  the client still gets 500 \<open>Failed to save recording\<close>. In the \<open>catch\<close> block the
  unlink is awaited before the response is built: when it throws, the handler ends
  without having sent that response, and the file stays in the upload directory.
\<close>

theorem C9_failed_cleanup_sends_no_response:
  "ingest env_failing empty_world
       \<lparr>audio = Some mp3_part, body_lat = Some ''1'', body_lng = Some ''2''\<rparr>
     = (Unhandled,
        \<lparr>sounds = [], uploads = {''1700000000000-123456789.mp3''}, written = 1000\<rparr>)"
  by (simp add: ingest_defs mp3_part_def env_failing_def empty_world_def parseFloat_defs)

text \<open>
  C10. The claim: Search never rejects a radius value, and a negative radius gives the
  empty list with HTTP 200. A radius that reads as an infinity is passed on to the
  query, which fails: \<open>radius=Infinity\<close> and \<open>radius=-Infinity\<close> are answered 500
  \<open>Failed to fetch recordings\<close> although the database can be read.
\<close>

theorem C10_infinite_radius_is_answered_500:
  "get_recordings True (world_of [sound_a])
      \<lparr>q_lat = Some ''0'', q_lng = Some ''0'', q_radius = Some ''Infinity''\<rparr>
     = Response 500 (Error ''Failed to fetch recordings'') \<and>
   get_recordings True (world_of [sound_a])
      \<lparr>q_lat = Some ''0'', q_lng = Some ''0'', q_radius = Some ''-Infinity''\<rparr>
     = Response 500 (Error ''Failed to fetch recordings'')"
  by (simp add: get_recordings_def sequelize_query_def searchRadius_def center_zero
      parseFloat_defs)

text \<open>
  C10, amended. For a Search with \<open>lat\<close> and \<open>lng\<close> present and a finite center: a
  radius that does not read as a number, or reads as 0, is replaced by 0.5 (the request
  is answered as with \<open>radius=0.5\<close>); a negative finite radius is used as it is and
  gives the empty list with 200; no finite radius is rejected, the search is run with
  the radius divided by 1000 and answered 200 when the database read succeeds; a radius
  that reads as an infinity makes the query fail and is answered 500
  \<open>Failed to fetch recordings\<close>.
\<close>

theorem C10_finite_radius_is_never_rejected:
  assumes "\<not> not_str la" and "\<not> not_str lo"
    and "latitude_of \<lparr>q_lat = la, q_lng = lo, q_radius = r\<rparr> = Num a"
    and "longitude_of \<lparr>q_lat = la, q_lng = lo, q_radius = r\<rparr> = Num b"
  shows
    "(\<forall>s. r = Some s \<and> (parseFloat s = NaN \<or> parseFloat s = Num 0) \<longrightarrow>
        searchRadius r = Num 0.5 \<and>
        get_recordings True w \<lparr>q_lat = la, q_lng = lo, q_radius = r\<rparr> =
        get_recordings True w \<lparr>q_lat = la, q_lng = lo, q_radius = Some ''0.5''\<rparr>) \<and>
     (\<forall>s x. r = Some s \<and> parseFloat s = Num x \<and> x < 0 \<longrightarrow>
        searchRadius r = Num x \<and>
        get_recordings True w \<lparr>q_lat = la, q_lng = lo, q_radius = r\<rparr>
          = Response 200 (Rows [])) \<and>
     (\<forall>x. searchRadius r = Num x \<longrightarrow>
        (\<exists>\<rho> rs. js_div (Num x) 1000 = Num \<rho> \<and>
           sequelize_query True (sounds w) (Num a) (Num b) (Num \<rho>) = Inr rs \<and>
           get_recordings True w \<lparr>q_lat = la, q_lng = lo, q_radius = r\<rparr>
             = Response 200 (Rows rs))) \<and>
     (searchRadius r = Infinity \<or> searchRadius r = NegInfinity \<longrightarrow>
        get_recordings ok w \<lparr>q_lat = la, q_lng = lo, q_radius = r\<rparr>
          = Response 500 (Error ''Failed to fetch recordings''))"
proof (intro conjI allI impI)
  fix s
  assume h: "r = Some s \<and> (parseFloat s = NaN \<or> parseFloat s = Num 0)"
  have half: "searchRadius (Some ''0.5'') = Num 0.5"
    by (simp add: searchRadius_def parseFloat_defs)
  from h show sr: "searchRadius r = Num 0.5"
    by (auto simp: searchRadius_def)
  have eq: "searchRadius r = searchRadius (Some ''0.5'')"
    by (simp only: sr half)
  show "get_recordings True w \<lparr>q_lat = la, q_lng = lo, q_radius = r\<rparr> =
        get_recordings True w \<lparr>q_lat = la, q_lng = lo, q_radius = Some ''0.5''\<rparr>"
    by (simp add: get_recordings_def latitude_of_def longitude_of_def eq)
next
  fix s x
  assume h: "r = Some s \<and> parseFloat s = Num x \<and> x < 0"
  then show sr: "searchRadius r = Num x"
    by (simp add: searchRadius_def)
  from h have "\<bar>x\<bar> < overflow_bound"
    by (intro parseFloat_range[of s]) simp
  from js_div_1000_finite[OF this]
  have "\<exists>\<rho>. js_div (Num x) 1000 = Num \<rho> \<and> (\<rho> = 0 \<or> \<rho> = x / 1000)"
    by blast
  then obtain \<rho>
    where d: "js_div (searchRadius r) 1000 = Num \<rho>" and "\<rho> = 0 \<or> \<rho> = x / 1000"
    unfolding sr by blast
  with h have "\<rho> \<le> 0"
    by auto
  then show "get_recordings True w \<lparr>q_lat = la, q_lng = lo, q_radius = r\<rparr>
          = Response 200 (Rows [])"
    using get_recordings_finite[of "\<lparr>q_lat = la, q_lng = lo, q_radius = r\<rparr>" a b \<rho> w]
      assms d
    by (simp add: nearby_nonpositive_radius)
next
  fix x
  assume sr: "searchRadius r = Num x"
  from js_div_1000_finite[OF searchRadius_range[OF sr]] obtain \<rho>
    where d: "js_div (Num x) 1000 = Num \<rho>"
    by blast
  with sr have "get_recordings True w \<lparr>q_lat = la, q_lng = lo, q_radius = r\<rparr>
             = Response 200 (Rows (nearby (sounds w) a b \<rho>))"
    using get_recordings_finite[of "\<lparr>q_lat = la, q_lng = lo, q_radius = r\<rparr>" a b \<rho> w]
      assms
    by simp
  moreover have "sequelize_query True (sounds w) (Num a) (Num b) (Num \<rho>)
                   = Inr (nearby (sounds w) a b \<rho>)"
    by (simp add: sequelize_query_def)
  ultimately show "\<exists>\<rho> rs. js_div (Num x) 1000 = Num \<rho> \<and>
           sequelize_query True (sounds w) (Num a) (Num b) (Num \<rho>) = Inr rs \<and>
           get_recordings True w \<lparr>q_lat = la, q_lng = lo, q_radius = r\<rparr>
             = Response 200 (Rows rs)"
    using d by blast
next
  assume "searchRadius r = Infinity \<or> searchRadius r = NegInfinity"
  with assms show "get_recordings ok w \<lparr>q_lat = la, q_lng = lo, q_radius = r\<rparr>
          = Response 500 (Error ''Failed to fetch recordings'')"
    by (auto simp add: get_recordings_def sequelize_query_def)
qed

text \<open>
  C10, amended, for \<open>radius=abc\<close>, \<open>radius=-1\<close>, \<open>radius=13000\<close> and
  \<open>radius=1e400\<close> against one Recording at the center.
\<close>

theorem C10_finite_radius_is_never_rejected_witness:
  "\<not> not_str (Some ''0'') \<and>
   parseFloat ''abc'' = NaN \<and>
   searchRadius (Some ''abc'') = Num 0.5 \<and>
   get_recordings True (world_of [sound_a])
      \<lparr>q_lat = Some ''0'', q_lng = Some ''0'', q_radius = Some ''abc''\<rparr> =
   get_recordings True (world_of [sound_a])
      \<lparr>q_lat = Some ''0'', q_lng = Some ''0'', q_radius = Some ''0.5''\<rparr> \<and>
   parseFloat ''-1'' = Num (- 1) \<and>
   searchRadius (Some ''-1'') = Num (- 1) \<and>
   get_recordings True (world_of [sound_a])
      \<lparr>q_lat = Some ''0'', q_lng = Some ''0'', q_radius = Some ''-1''\<rparr>
     = Response 200 (Rows []) \<and>
   searchRadius (Some ''13000'') = Num 13000 \<and>
   get_recordings True (world_of [sound_a])
      \<lparr>q_lat = Some ''0'', q_lng = Some ''0'', q_radius = Some ''13000''\<rparr>
     = Response 200 (Rows [(sound_a, 0)]) \<and>
   searchRadius (Some ''1e400'') = Infinity \<and>
   get_recordings True (world_of [sound_a])
      \<lparr>q_lat = Some ''0'', q_lng = Some ''0'', q_radius = Some ''1e400''\<rparr>
     = Response 500 (Error ''Failed to fetch recordings'')"
proof -
  have p: "\<not> not_str (Some ''0'')" by simp
  have a: "parseFloat ''abc'' = NaN" by (simp add: parseFloat_defs)
  have m: "parseFloat ''-1'' = Num (- 1)" by (simp add: parseFloat_defs)
  have k: "searchRadius (Some ''13000'') = Num 13000"
    by (simp add: searchRadius_def parseFloat_defs)
  have kd: "js_div (Num 13000) 1000 = Num 13"
    by (simp add: to_double_def overflow_bound_def underflow_bound_def)
  have i: "searchRadius (Some ''1e400'') = Infinity"
    by (simp add: searchRadius_def parseFloat_defs)
  have s: "sounds (world_of [sound_a]) = [sound_a]"
    by (simp add: world_of_def)
  note inst = C10_finite_radius_is_never_rejected[OF p p center_zero(1) center_zero(2)]
  have 1: "searchRadius (Some ''abc'') = Num 0.5 \<and>
   get_recordings True (world_of [sound_a])
      \<lparr>q_lat = Some ''0'', q_lng = Some ''0'', q_radius = Some ''abc''\<rparr> =
   get_recordings True (world_of [sound_a])
      \<lparr>q_lat = Some ''0'', q_lng = Some ''0'', q_radius = Some ''0.5''\<rparr>"
    using inst[of "Some ''abc''" "world_of [sound_a]" True] a by blast
  have 2: "searchRadius (Some ''-1'') = Num (- 1) \<and>
   get_recordings True (world_of [sound_a])
      \<lparr>q_lat = Some ''0'', q_lng = Some ''0'', q_radius = Some ''-1''\<rparr>
     = Response 200 (Rows [])"
    using inst[of "Some ''-1''" "world_of [sound_a]" True] m by force
  have q: "sequelize_query True [sound_a] (Num 0) (Num 0) (Num 13) = Inr [(sound_a, 0)]"
    by (simp add: sequelize_query_def nearby_def where_distance_def sound_a_def
        distance_same_point)
  have 3: "get_recordings True (world_of [sound_a])
      \<lparr>q_lat = Some ''0'', q_lng = Some ''0'', q_radius = Some ''13000''\<rparr>
     = Response 200 (Rows [(sound_a, 0)])"
    using inst[of "Some ''13000''" "world_of [sound_a]" True] k kd s q by force
  have 4: "get_recordings True (world_of [sound_a])
      \<lparr>q_lat = Some ''0'', q_lng = Some ''0'', q_radius = Some ''1e400''\<rparr>
     = Response 500 (Error ''Failed to fetch recordings'')"
    using inst[of "Some ''1e400''" "world_of [sound_a]" True] i by blast
  from p a m k i 1 2 3 4 show ?thesis
    by (intro conjI) (simp_all only: simp_thms)
qed

end
